theory Spec2Isabelle
  imports Complex_Main "HOL-Library.Word" "HOL-Library.Log_Nat"
begin

section \<open>JavaScript values used by the chat component\<close>

subsection \<open>Strings\<close>

text \<open>
  A JavaScript string value is a sequence of UTF-16 code units.  Property names
  (\<open>GPS\<close>, \<open>alt\<close>, \<open>response\<close>, ...) are only ever compared for equality and
  are kept as plain \<^typ>\<open>string\<close>s.
\<close>

type_synonym jsstring = "16 word list"

definition js_str :: "string \<Rightarrow> jsstring" where
  "js_str cs = map (\<lambda>c. word_of_nat (of_char c)) cs"

text \<open>
  \<open>String.prototype.trim\<close> removes WhiteSpace and LineTerminator code points
  from both ends: TAB, LF, VT, FF, CR, SP, NBSP, the Unicode space separators
  (U+1680, U+2000..U+200A, U+202F, U+205F, U+3000), LS, PS and U+FEFF.
\<close>

definition js_whitespace :: "16 word \<Rightarrow> bool" where
  "js_whitespace c =
     (c = 0x0009 \<or> c = 0x000A \<or> c = 0x000B \<or> c = 0x000C \<or> c = 0x000D \<or>
      c = 0x0020 \<or> c = 0x00A0 \<or> c = 0x1680 \<or>
      (0x2000 \<le> c \<and> c \<le> 0x200A) \<or>
      c = 0x2028 \<or> c = 0x2029 \<or> c = 0x202F \<or> c = 0x205F \<or>
      c = 0x3000 \<or> c = 0xFEFF)"

definition js_trim :: "jsstring \<Rightarrow> jsstring" where
  "js_trim s = rev (dropWhile js_whitespace (rev (dropWhile js_whitespace s)))"

subsection \<open>Numbers\<close>

text \<open>
  A Number is a finite double, an infinity or NaN.  A finite double is
  represented by the rational it denotes (the two zeros are identified: no
  operation of the component tells them apart).
\<close>

datatype jsnum = Fin rat | PosInf | NegInf | NaN

text \<open>Round-to-nearest, ties-to-even, of an exact result to a double.\<close>

definition round_half_even :: "rat \<Rightarrow> int" where
  "round_half_even q =
     (let n = \<lfloor>q\<rfloor>; r = q - of_int n
      in if r < 1 / 2 then n
         else if 1 / 2 < r then n + 1
         else if even n then n else n + 1)"

definition ilog2 :: "rat \<Rightarrow> int" where
  \<comment> \<open>for \<open>0 < q\<close>: the \<open>e\<close> with \<open>2 powi e \<le> q < 2 powi (e + 1)\<close>\<close>
  "ilog2 q =
     (let (p, d) = quotient_of q; g = bitlen p - bitlen d
      in if 2 powi g \<le> q then g else g - 1)"

definition round_double :: "rat \<Rightarrow> jsnum" where
  "round_double q =
     (if q = 0 then Fin 0
      else
        let a = \<bar>q\<bar>;
            e = max (ilog2 a) (- 1022);
            ulp = 2 powi (e - 52);
            r = of_int (round_half_even (a / ulp)) * ulp
        in if 2 powi 1024 \<le> r then (if q < 0 then NegInf else PosInf)
           else Fin (if q < 0 then - r else r))"

text \<open>The binary \<open>-\<close> operator on two Numbers.\<close>

fun js_sub :: "jsnum \<Rightarrow> jsnum \<Rightarrow> jsnum" where
  "js_sub NaN _ = NaN"
| "js_sub _ NaN = NaN"
| "js_sub (Fin a) (Fin b) = round_double (a - b)"
| "js_sub (Fin _) PosInf = NegInf"
| "js_sub (Fin _) NegInf = PosInf"
| "js_sub PosInf (Fin _) = PosInf"
| "js_sub NegInf (Fin _) = NegInf"
| "js_sub PosInf NegInf = PosInf"
| "js_sub NegInf PosInf = NegInf"
| "js_sub PosInf PosInf = NaN"
| "js_sub NegInf NegInf = NaN"

text \<open>
  The value of \<open>Math.min\<close> (\<open>Math.max\<close>) on the arguments \<open>xs\<close>: NaN if an
  argument is NaN, otherwise the least (greatest) argument; \<open>+Infinity\<close>
  (\<open>-Infinity\<close>) for no argument.
\<close>

fun lower :: "jsnum \<Rightarrow> jsnum \<Rightarrow> jsnum" where
  "lower NegInf _ = NegInf"
| "lower _ NegInf = NegInf"
| "lower PosInf y = y"
| "lower x PosInf = x"
| "lower (Fin a) (Fin b) = Fin (min a b)"
| "lower x _ = x"

fun higher :: "jsnum \<Rightarrow> jsnum \<Rightarrow> jsnum" where
  "higher PosInf _ = PosInf"
| "higher _ PosInf = PosInf"
| "higher NegInf y = y"
| "higher x NegInf = x"
| "higher (Fin a) (Fin b) = Fin (max a b)"
| "higher x _ = x"

definition least :: "jsnum list \<Rightarrow> jsnum" where
  "least xs = (if NaN \<in> set xs then NaN else foldl lower PosInf xs)"

definition greatest :: "jsnum list \<Rightarrow> jsnum" where
  "greatest xs = (if NaN \<in> set xs then NaN else foldl higher NegInf xs)"

subsection \<open>Errors and the engine\<close>

datatype js_error = TypeError | RangeError | Timeout | ConnectionRefused | BadStatus nat

text \<open>
  Two things are left to the engine that runs the component.  The first is how
  \<open>Number::toString\<close> prints a finite number of magnitude \<open>10\<^sup>2\<^sup>1\<close> or more:
  ECMA-262 does not fix its last digit.  The second is how many arguments a
  call may have: a call \<open>f(...xs)\<close> that spreads an array longer than the
  engine's limit throws a RangeError instead of calling \<open>f\<close>.  The limit is
  not part of the language; the smallest one among the engines in use is
  JavaScriptCore's 65536, so no engine refuses a call of up to 65535 arguments.
\<close>

record engine =
  number_toString :: "rat \<Rightarrow> jsstring"
  max_arguments :: nat

definition arg_limit :: "engine \<Rightarrow> nat" where
  "arg_limit eng = max 65535 (max_arguments eng)"

text \<open>\<open>Math.min(...xs)\<close> and \<open>Math.max(...xs)\<close>, with the array spread.\<close>

definition Math_min :: "engine \<Rightarrow> jsnum list \<Rightarrow> js_error + jsnum" where
  "Math_min eng xs = (if arg_limit eng < length xs then Inl RangeError else Inr (least xs))"

definition Math_max :: "engine \<Rightarrow> jsnum list \<Rightarrow> js_error + jsnum" where
  "Math_max eng xs = (if arg_limit eng < length xs then Inl RangeError else Inr (greatest xs))"

subsection \<open>\<open>Number.prototype.toFixed\<close>\<close>

definition digit :: "nat \<Rightarrow> 16 word" where
  "digit d = word_of_nat (48 + d)"

fun digits :: "nat \<Rightarrow> jsstring" where
  "digits n = (if n < 10 then [digit n] else digits (n div 10) @ [digit (n mod 10)])"

declare digits.simps [simp del]

text \<open>
  \<open>x.toFixed(f)\<close> for \<open>0 \<le> f \<le> 100\<close>.  A non-finite \<open>x\<close> prints as
  \<open>Number::toString\<close> does.  Otherwise the sign is split off, and below
  \<open>10\<^sup>2\<^sup>1\<close> the digits are those of the integer \<open>n\<close> for which \<open>n / 10\<^sup>f - x\<close>
  is closest to zero, the larger \<open>n\<close> on a tie; they are padded with zeros to
  \<open>f + 1\<close> digits and the point is put before the last \<open>f\<close>.  From \<open>10\<^sup>2\<^sup>1\<close> on
  the digits are \<open>Number::toString\<close>'s, the engine's: that function is the
  parameter \<open>big\<close>.
\<close>

definition toFixed :: "(rat \<Rightarrow> jsstring) \<Rightarrow> nat \<Rightarrow> jsnum \<Rightarrow> jsstring" where
  "toFixed big f x =
     (case x of
        NaN \<Rightarrow> js_str ''NaN''
      | PosInf \<Rightarrow> js_str ''Infinity''
      | NegInf \<Rightarrow> js_str ''-Infinity''
      | Fin q \<Rightarrow>
          let s = (if q < 0 then js_str ''-'' else []);
              a = \<bar>q\<bar>
          in if 10 ^ 21 \<le> a then s @ big a
             else
               let n = nat \<lfloor>a * 10 ^ f + 1 / 2\<rfloor>;
                   m = digits n;
                   k = length m;
                   m = (if f \<noteq> 0 \<and> k \<le> f then replicate (f + 1 - k) (digit 0) @ m else m);
                   k = length m
               in if f \<noteq> 0 then s @ take (k - f) m @ js_str ''.'' @ drop (k - f) m
                  else s @ m)"


subsection \<open>Structured values\<close>

text \<open>
  What a parsed response body, and hence the content of a chat message, can be.
\<close>

datatype jsval =
    Undefined
  | Null
  | Boolean bool
  | Number jsnum
  | String jsstring
  | Array "jsval list"
  | Object "(string \<times> jsval) list"

text \<open>
  The property read \<open>d.response\<close>: a TypeError on \<open>undefined\<close> and \<open>null\<close>,
  the property's value on an object that has it, and \<open>undefined\<close> on every
  other value (no primitive wrapper, array or plain object inherits a property
  of that name).
\<close>

fun read_response :: "jsval \<Rightarrow> js_error + jsval" where
  "read_response Undefined = Inl TypeError"
| "read_response Null = Inl TypeError"
| "read_response (Object kvs) =
     Inr (case map_of kvs ''response'' of None \<Rightarrow> Undefined | Some v \<Rightarrow> v)"
| "read_response _ = Inr Undefined"

section \<open>The chat component (\<open>src/components/ChatBot.vue\<close>)\<close>

subsection \<open>Data model\<close>

text \<open>
  A telemetry record maps field names to Numbers; a missing field reads as
  \<open>undefined\<close> (\<open>None\<close>).  The \<open>flightData\<close> property maps message-type names
  to series of records.  Both are association lists: \<open>Object.keys\<close> of the
  property is the list of its keys.
\<close>

type_synonym msg = "(string \<times> jsnum) list"
type_synonym flight_data = "(string \<times> msg list) list"

text \<open>\<open>ToNumber\<close> of a field read: \<open>undefined\<close> becomes NaN.\<close>

definition to_number :: "jsnum option \<Rightarrow> jsnum" where
  "to_number v = (case v of None \<Rightarrow> NaN | Some n \<Rightarrow> n)"

record message =
  role :: string
  content :: jsval

record request =
  url :: string
  body_message :: jsstring
  body_sessionId :: "jsstring option"

datatype http_outcome = Resolved jsval | Rejected js_error

text \<open>
  The component instance: the property \<open>flightData\<close>, the fields of \<open>data ()\<close>,
  and what the component does to its surroundings: the requests handed to the
  HTTP client that have not settled yet, the errors the component writes to
  the console, the number of scroll callbacks given to \<open>$nextTick\<close>, and the
  errors that escaped a handler of the component and went to the framework's
  error handler.
\<close>

record state =
  flightData :: flight_data
  messages :: "message list"
  newMessage :: jsstring
  isLoading :: bool
  sessionId :: "jsstring option"
  flightDuration :: "jsnum option"
  altitudeRange :: "jsstring option"
  batteryRange :: "jsstring option"
  inflight :: "request list"
  console :: "js_error list"
  scrolls :: nat
  uncaught :: "js_error list"

definition data :: "flight_data \<Rightarrow> state" where
  "data fd =
     \<lparr>flightData = fd, messages = [], newMessage = [], isLoading = False,
      sessionId = None, flightDuration = None, altitudeRange = None,
      batteryRange = None, inflight = [], console = [], scrolls = 0, uncaught = []\<rparr>"

definition hasFlightData :: "state \<Rightarrow> bool" where
  "hasFlightData s = (length (map fst (flightData s)) > 0)"

definition push :: "message \<Rightarrow> state \<Rightarrow> state" where
  "push m s = s\<lparr>messages := messages s @ [m]\<rparr>"

subsection \<open>\<open>sendMessage\<close>\<close>

definition fallback_text :: jsstring where
  "fallback_text = js_str ''Sorry, there was an error processing your message.''"

text \<open>
  The call up to its \<open>await\<close>: the guard, the three assignments, the push of
  the user's message and the call of \<open>axios.post\<close>.
\<close>

definition sendMessage :: "state \<Rightarrow> state" where
  "sendMessage s =
     (if js_trim (newMessage s) = [] \<or> isLoading s \<or> \<not> hasFlightData s then s
      else
        let userMessage = newMessage s;
            s = s\<lparr>newMessage := []\<rparr>;
            s = s\<lparr>isLoading := True\<rparr>;
            s = push \<lparr>role = ''user'', content = String userMessage\<rparr> s
        in s\<lparr>inflight := inflight s @
              [\<lparr>url = ''http://localhost:8001/chat'', body_message = userMessage,
                body_sessionId = sessionId s\<rparr>]\<rparr>)"

text \<open>
  The rest of the call, run when the awaited promise settles: the end of the
  \<open>try\<close> block, or the \<open>catch\<close> block when the promise was rejected or the
  read of \<open>response.data.response\<close> threw, and then \<open>finally\<close>.
\<close>

definition catch_block :: "js_error \<Rightarrow> state \<Rightarrow> state" where
  "catch_block e s =
     push \<lparr>role = ''assistant'', content = String fallback_text\<rparr>
       (s\<lparr>console := console s @ [e]\<rparr>)"

definition sendMessage_settled :: "http_outcome \<Rightarrow> state \<Rightarrow> state" where
  "sendMessage_settled r s =
     (let s =
        (case r of
           Resolved d \<Rightarrow>
             (case read_response d of
                Inr v \<Rightarrow>
                  (let s = push \<lparr>role = ''assistant'', content = v\<rparr> s
                   in s\<lparr>scrolls := scrolls s + 1\<rparr>)
              | Inl e \<Rightarrow> catch_block e s)
         | Rejected e \<Rightarrow> catch_block e s)
      in s\<lparr>isLoading := False\<rparr>)"

subsection \<open>\<open>updateFlightInfo\<close>\<close>

definition range_text :: "engine \<Rightarrow> jsnum \<Rightarrow> jsnum \<Rightarrow> string \<Rightarrow> jsstring" where
  \<comment> \<open>the template literal, with unit \<open>u\<close>\<close>
  "range_text eng mn mx u =
     toFixed (number_toString eng) 1 mn @ js_str u @ js_str '' - '' @
     toFixed (number_toString eng) 1 mx @ js_str u"

text \<open>
  The three blocks of the function body, in the order of the source.  The
  second and the third can throw (the two spread calls), which they do before
  they assign; the function then ends there, with what the earlier blocks
  assigned, and its caller gets the error.
\<close>

definition update_duration :: "state \<Rightarrow> state" where
  "update_duration s =
     (case map_of (flightData s) ''GPS'' of
        Some gpsData \<Rightarrow>
          if length gpsData > 0
          then s\<lparr>flightDuration := Some
                 (js_sub (to_number (map_of (gpsData ! (length gpsData - 1)) ''timestamp''))
                         (to_number (map_of (gpsData ! 0) ''timestamp'')))\<rparr>
          else s
      | None \<Rightarrow> s)"

definition update_altitude :: "engine \<Rightarrow> state \<Rightarrow> js_error + state" where
  "update_altitude eng s =
     (case map_of (flightData s) ''ATT'' of
        Some att \<Rightarrow>
          if length att > 0
          then
            let altitudes =
                  filter (\<lambda>alt. alt \<noteq> None) (map (\<lambda>msg. map_of msg ''alt'') att)
            in if length altitudes > 0
               then
                 (case Math_min eng (map the altitudes) of
                    Inl e \<Rightarrow> Inl e
                  | Inr mn \<Rightarrow>
                      (case Math_max eng (map the altitudes) of
                         Inl e \<Rightarrow> Inl e
                       | Inr mx \<Rightarrow> Inr (s\<lparr>altitudeRange := Some (range_text eng mn mx ''m'')\<rparr>)))
               else Inr s
          else Inr s
      | None \<Rightarrow> Inr s)"

definition update_battery :: "engine \<Rightarrow> state \<Rightarrow> js_error + state" where
  "update_battery eng s =
     (case map_of (flightData s) ''BAT'' of
        Some bat \<Rightarrow>
          if length bat > 0
          then
            let voltages =
                  filter (\<lambda>volt. volt \<noteq> None) (map (\<lambda>msg. map_of msg ''volt'') bat)
            in if length voltages > 0
               then
                 (case Math_min eng (map the voltages) of
                    Inl e \<Rightarrow> Inl e
                  | Inr mn \<Rightarrow>
                      (case Math_max eng (map the voltages) of
                         Inl e \<Rightarrow> Inl e
                       | Inr mx \<Rightarrow> Inr (s\<lparr>batteryRange := Some (range_text eng mn mx ''V'')\<rparr>)))
               else Inr s
          else Inr s
      | None \<Rightarrow> Inr s)"

text \<open>
  The result is the error thrown, if any, and the component as the call left
  it.
\<close>

definition updateFlightInfo :: "engine \<Rightarrow> state \<Rightarrow> js_error option \<times> state" where
  "updateFlightInfo eng s =
     (if \<not> hasFlightData s then (None, s)
      else
        let s = update_duration s
        in case update_altitude eng s of
             Inl e \<Rightarrow> (Some e, s)
           | Inr s \<Rightarrow>
               (case update_battery eng s of
                  Inl e \<Rightarrow> (Some e, s)
                | Inr s \<Rightarrow> (None, s)))"

subsection \<open>The watcher of \<open>flightData\<close>, creation and mounting\<close>

definition greeting_text :: jsstring where
  "greeting_text = js_str
     (''Flight data loaded! You can ask me questions about your flight, such as:'' @ [CHR 0x0A] @
      ''- What was the highest altitude reached?'' @ [CHR 0x0A] @
      ''- When did the GPS signal first get lost?'' @ [CHR 0x0A] @
      ''- What was the maximum battery temperature?'' @ [CHR 0x0A] @
      ''- How long was the total flight time?'' @ [CHR 0x0A] @
      ''- List all critical errors that happened mid-flight.'' @ [CHR 0x0A] @
      ''- When was the first instance of RC signal loss?'')"

text \<open>
  An error thrown by \<open>updateFlightInfo\<close> ends the handler before the greeting;
  the framework catches it and reports it.
\<close>

definition flightData_handler :: "engine \<Rightarrow> flight_data \<Rightarrow> state \<Rightarrow> state" where
  "flightData_handler eng newData s =
     (if length (map fst newData) > 0
      then
        (case updateFlightInfo eng s of
           (Some e, s) \<Rightarrow> s\<lparr>uncaught := uncaught s @ [e]\<rparr>
         | (None, s) \<Rightarrow>
             if length (messages s) = 0
             then push \<lparr>role = ''assistant'', content = String greeting_text\<rparr> s
             else s)
      else s)"

text \<open>
  The watcher is immediate: it runs once at creation with the initial property.
  \<open>mounted\<close> then sets the session identifier, \<open>Date.now().toString()\<close>, here
  the argument \<open>sid\<close>.
\<close>

definition mounted :: "jsstring \<Rightarrow> state \<Rightarrow> state" where
  "mounted sid s = s\<lparr>sessionId := Some sid\<rparr>"

definition mount :: "engine \<Rightarrow> flight_data \<Rightarrow> jsstring \<Rightarrow> state" where
  "mount eng fd sid = mounted sid (flightData_handler eng fd (data fd))"

subsection \<open>Events\<close>

text \<open>
  What happens to a mounted component, one event at a time (the UI thread runs
  each to its end): the input binding writes \<open>newMessage\<close>; the button or the
  enter key calls \<open>sendMessage\<close>; the oldest pending request settles and the
  call that awaits it resumes; the parent replaces \<open>flightData\<close> and the watcher
  runs.
\<close>

datatype event =
    Typed jsstring
  | Send
  | Settled http_outcome
  | FlightDataChanged flight_data

fun step :: "engine \<Rightarrow> state \<Rightarrow> event \<Rightarrow> state" where
  "step eng s (Typed t) = s\<lparr>newMessage := t\<rparr>"
| "step eng s Send = sendMessage s"
| "step eng s (Settled r) =
     (case inflight s of
        [] \<Rightarrow> s
      | q # qs \<Rightarrow> sendMessage_settled r (s\<lparr>inflight := qs\<rparr>))"
| "step eng s (FlightDataChanged fd) = flightData_handler eng fd (s\<lparr>flightData := fd\<rparr>)"

definition run :: "engine \<Rightarrow> state \<Rightarrow> event list \<Rightarrow> state" where
  "run eng s evs = foldl (step eng) s evs"

subsection \<open>Notions for the lemmas\<close>

text \<open>
  The series of a message type in the property (empty when the type is
  missing), and the values of a field in the records of a series that define
  it: the array \<open>altitudes\<close>, respectively \<open>voltages\<close>, of the source.
\<close>

definition series :: "state \<Rightarrow> string \<Rightarrow> msg list" where
  "series s k = (case map_of (flightData s) k of None \<Rightarrow> [] | Some xs \<Rightarrow> xs)"

definition defined_values :: "string \<Rightarrow> msg list \<Rightarrow> jsnum list" where
  "defined_values k xs = map the (filter (\<lambda>v. v \<noteq> None) (map (\<lambda>msg. map_of msg k) xs))"

section \<open>Example inputs\<close>

text \<open>
  The engine of the examples refuses a call of more than 125503 arguments.  No
  example formats a number of magnitude \<open>10\<^sup>2\<^sup>1\<close> or more, so its function for
  that part of \<open>toFixed\<close> is never applied.
\<close>

definition example_engine :: engine where
  "example_engine = \<lparr>number_toString = (\<lambda>q. []), max_arguments = 125503\<rparr>"

definition gps_example :: flight_data where
  "gps_example =
     [(''GPS'', [[(''timestamp'', Fin 40)], [(''timestamp'', Fin 70)], [(''timestamp'', Fin 100)]])]"

definition att_example :: "msg list" where
  "att_example = [[(''alt'', Fin 1)], [(''alt'', Fin (21 / 4))], []]"

definition no_field_example :: flight_data where
  "no_field_example = [(''ATT'', [[(''roll'', Fin 2)], []]), (''BAT'', [[(''curr'', Fin 3)]])]"

definition long_att_example :: flight_data where
  "long_att_example = [(''ATT'', replicate 150000 [(''alt'', Fin 1)])]"

section \<open>Properties\<close>

subsection \<open>Evaluation rules and the three blocks\<close>

lemma digits_small: "n < 10 \<Longrightarrow> digits n = [digit n]"
  by (simp add: digits.simps)

lemma digits_large: "\<not> n < 10 \<Longrightarrow> digits n = digits (n div 10) @ [digit (n mod 10)]"
  by (subst digits.simps) simp

lemma hasFlightData_iff: "hasFlightData s \<longleftrightarrow> flightData s \<noteq> []"
  by (simp add: hasFlightData_def)

lemma series_Some: "map_of (flightData s) k = Some xs \<Longrightarrow> series s k = xs"
  by (simp add: series_def)

lemma series_no_data: "flightData s = [] \<Longrightarrow> series s k = []"
  by (simp add: series_def)

lemma defined_values_Nil [simp]: "defined_values k [] = []"
  by (simp add: defined_values_def)

lemma defined_values_empty_iff:
  "defined_values k xs = [] \<longleftrightarrow> (\<forall>m \<in> set xs. map_of m k = None)"
  by (auto simp add: defined_values_def filter_empty_conv)

lemma length_defined_values:
  "length (defined_values k xs) = length (filter (\<lambda>m. map_of m k \<noteq> None) xs)"
  by (induction xs) (auto simp add: defined_values_def)

lemma defined_values_filter:
  "defined_values k (filter (\<lambda>m. map_of m k \<noteq> None) xs) = defined_values k xs"
  by (induction xs) (auto simp add: defined_values_def)

lemma update_duration_frame:
  "flightData (update_duration s) = flightData s"
  "messages (update_duration s) = messages s"
  "newMessage (update_duration s) = newMessage s"
  "isLoading (update_duration s) = isLoading s"
  "sessionId (update_duration s) = sessionId s"
  "altitudeRange (update_duration s) = altitudeRange s"
  "batteryRange (update_duration s) = batteryRange s"
  "inflight (update_duration s) = inflight s"
  "console (update_duration s) = console s"
  "scrolls (update_duration s) = scrolls s"
  "uncaught (update_duration s) = uncaught s"
  "series (update_duration s) k = series s k"
  by (simp_all add: update_duration_def series_def split: option.split)

lemma update_duration_value:
  "flightDuration (update_duration s) =
     (case map_of (flightData s) ''GPS'' of
        Some g \<Rightarrow> if g \<noteq> [] then Some (js_sub (to_number (map_of (last g) ''timestamp''))
                                          (to_number (map_of (hd g) ''timestamp'')))
                  else flightDuration s
      | None \<Rightarrow> flightDuration s)"
  by (simp add: update_duration_def last_conv_nth hd_conv_nth split: option.split)

lemma update_altitude_eq:
  "update_altitude eng s =
     (if defined_values ''alt'' (series s ''ATT'') = [] then Inr s
      else if arg_limit eng < length (defined_values ''alt'' (series s ''ATT''))
      then Inl RangeError
      else Inr (s\<lparr>altitudeRange := Some (range_text eng
             (least (defined_values ''alt'' (series s ''ATT'')))
             (greatest (defined_values ''alt'' (series s ''ATT''))) ''m'')\<rparr>))"
  by (simp add: update_altitude_def series_def defined_values_def Math_min_def Math_max_def
      Let_def split: option.split)

lemma update_battery_eq:
  "update_battery eng s =
     (if defined_values ''volt'' (series s ''BAT'') = [] then Inr s
      else if arg_limit eng < length (defined_values ''volt'' (series s ''BAT''))
      then Inl RangeError
      else Inr (s\<lparr>batteryRange := Some (range_text eng
             (least (defined_values ''volt'' (series s ''BAT'')))
             (greatest (defined_values ''volt'' (series s ''BAT''))) ''V'')\<rparr>))"
  by (simp add: update_battery_def series_def defined_values_def Math_min_def Math_max_def
      Let_def split: option.split)

lemma series_altitudeRange_update [simp]: "series (s\<lparr>altitudeRange := r\<rparr>) k = series s k"
  by (simp add: series_def)

text \<open>The call as a whole: which spread call throws, and what each field is afterwards.\<close>

lemma updateFlightInfo_eq:
  "updateFlightInfo eng s =
     (if flightData s = [] then (None, s)
      else if defined_values ''alt'' (series s ''ATT'') \<noteq> [] \<and>
              arg_limit eng < length (defined_values ''alt'' (series s ''ATT''))
      then (Some RangeError, update_duration s)
      else
        let s1 = (if defined_values ''alt'' (series s ''ATT'') = [] then update_duration s
                  else (update_duration s)\<lparr>altitudeRange := Some (range_text eng
                    (least (defined_values ''alt'' (series s ''ATT'')))
                    (greatest (defined_values ''alt'' (series s ''ATT''))) ''m'')\<rparr>)
        in if defined_values ''volt'' (series s ''BAT'') \<noteq> [] \<and>
              arg_limit eng < length (defined_values ''volt'' (series s ''BAT''))
           then (Some RangeError, s1)
           else if defined_values ''volt'' (series s ''BAT'') = [] then (None, s1)
           else (None, s1\<lparr>batteryRange := Some (range_text eng
                    (least (defined_values ''volt'' (series s ''BAT'')))
                    (greatest (defined_values ''volt'' (series s ''BAT''))) ''V'')\<rparr>))"
  by (simp add: updateFlightInfo_def hasFlightData_iff update_altitude_eq update_battery_eq
      update_duration_frame Let_def)

subsection \<open>Rounding to a double\<close>

text \<open>An integer of magnitude at most \<open>2\<^sup>5\<^sup>3\<close> is a double: rounding leaves it as it is.\<close>

lemma round_half_even_int: "round_half_even (of_int k) = k"
  by (simp add: round_half_even_def)

lemma bitlen_1: "bitlen 1 = 1"
  by (simp add: bitlen_alt_def)

lemma ilog2_int:
  assumes "0 < m"
  shows "ilog2 (of_int m) = bitlen m - 1"
proof -
  have b: "1 \<le> bitlen m"
    using assms by (simp add: bitlen_alt_def)
  have "(2::int) ^ nat (bitlen m - 1) \<le> m"
    using bitlen_bounds [OF assms] by simp
  then have "(of_int ((2::int) ^ nat (bitlen m - 1)) :: rat) \<le> of_int m"
    by (simp only: of_int_le_iff)
  then have "(2::rat) ^ nat (bitlen m - 1) \<le> of_int m"
    by simp
  moreover have "(2::rat) powi (bitlen m - 1) = 2 ^ nat (bitlen m - 1)"
    using b by (simp add: power_int_def)
  ultimately show ?thesis
    by (simp add: ilog2_def bitlen_1)
qed

lemma round_double_nat_int:
  assumes "0 < m" and "m \<le> 2 ^ 53"
  shows "round_double (of_int m) = Fin (of_int m)"
    and "round_double (- of_int m) = Fin (- of_int m)"
proof -
  define g where "g = bitlen m - 1"
  have g0: "0 \<le> g"
    using assms(1) by (simp add: g_def bitlen_alt_def)
  have lo: "(2::int) ^ nat g \<le> m"
    using bitlen_bounds [OF assms(1)] by (simp add: g_def)
  with assms(2) have p: "(2::int) ^ nat g \<le> 2 ^ 53"
    by linarith
  have "nat g \<le> 53"
  proof (rule power_le_imp_le_exp)
    show "(1::int) < 2" by simp
    show "(2::int) ^ nat g \<le> 2 ^ 53" by (fact p)
  qed
  with g0 have g53: "g \<le> 53"
    by linarith
  obtain k :: int where k: "(of_int m :: rat) / 2 powi (g - 52) = of_int k"
  proof (cases "g \<le> 52")
    case True
    then have "(2::rat) powi (g - 52) = inverse (2 ^ nat (52 - g))"
      by (simp add: power_int_def power_divide inverse_eq_divide)
    then have "(of_int m :: rat) / 2 powi (g - 52) = of_int (m * 2 ^ nat (52 - g))"
      by (simp add: field_simps)
    then show ?thesis by (rule that)
  next
    case False
    with g53 have g: "g = 53" by linarith
    with lo assms(2) have "m = 2 ^ 53" by simp
    with g have "(of_int m :: rat) / 2 powi (g - 52) = of_int (2 ^ 52)"
      by simp
    then show ?thesis by (rule that)
  qed
  have ulp: "(2::rat) powi (g - 52) \<noteq> 0"
    by simp
  have r: "(of_int k :: rat) * 2 powi (g - 52) = of_int m"
    using k ulp by (simp add: field_simps)
  have "(of_int m :: rat) \<le> of_int (2 ^ 53)"
    using assms(2) by (simp only: of_int_le_iff)
  then have "(of_int m :: rat) < 2 ^ 1024"
    by simp
  then have small: "\<not> (2::rat) powi 1024 \<le> of_int m"
    by simp
  have m0: "(of_int m :: rat) > 0" "(of_int m :: rat) \<noteq> 0"
    using assms(1) by simp_all
  have e: "max (ilog2 (of_int m)) (- 1022) = g"
    using g0 by (simp add: ilog2_int [OF assms(1)] g_def)
  have a1: "\<bar>of_int m :: rat\<bar> = of_int m" "\<bar>- of_int m :: rat\<bar> = of_int m"
    using assms(1) by simp_all
  show "round_double (of_int m) = Fin (of_int m)"
    unfolding round_double_def Let_def a1 e k round_half_even_int r
    using m0 small by simp
  show "round_double (- of_int m) = Fin (- of_int m)"
    unfolding round_double_def Let_def a1 e k round_half_even_int r
    using m0 small by simp
qed

lemma round_double_int:
  assumes "\<bar>n\<bar> \<le> 2 ^ 53"
  shows "round_double (of_int n) = Fin (of_int n)"
proof -
  consider "n = 0" | "0 < n" | "n < 0" by linarith
  then show ?thesis
  proof cases
    case 1
    then show ?thesis by (simp add: round_double_def)
  next
    case 2
    with assms show ?thesis by (simp add: round_double_nat_int)
  next
    case 3
    with assms have "0 < - n" "- n \<le> 2 ^ 53" by simp_all
    then have "round_double (- of_int (- n)) = Fin (- of_int (- n))"
      by (rule round_double_nat_int)
    then show ?thesis by simp
  qed
qed

subsection \<open>\<open>updateFlightInfo\<close>, field by field\<close>

lemma arg_limit_floor: "65535 \<le> arg_limit eng"
  by (simp add: arg_limit_def)

lemma updateFlightInfo_frame:
  "flightData (snd (updateFlightInfo eng s)) = flightData s"
  "messages (snd (updateFlightInfo eng s)) = messages s"
  "newMessage (snd (updateFlightInfo eng s)) = newMessage s"
  "isLoading (snd (updateFlightInfo eng s)) = isLoading s"
  "sessionId (snd (updateFlightInfo eng s)) = sessionId s"
  "inflight (snd (updateFlightInfo eng s)) = inflight s"
  "console (snd (updateFlightInfo eng s)) = console s"
  "scrolls (snd (updateFlightInfo eng s)) = scrolls s"
  "uncaught (snd (updateFlightInfo eng s)) = uncaught s"
  by (simp_all add: updateFlightInfo_eq Let_def update_duration_frame)

lemma update_duration_no_data: "flightData s = [] \<Longrightarrow> update_duration s = s"
  by (simp add: update_duration_def)

lemma updateFlightInfo_flightDuration:
  "flightDuration (snd (updateFlightInfo eng s)) = flightDuration (update_duration s)"
  by (simp add: updateFlightInfo_eq Let_def update_duration_no_data)

lemma updateFlightInfo_altitudeRange:
  "altitudeRange (snd (updateFlightInfo eng s)) =
     (if defined_values ''alt'' (series s ''ATT'') = [] \<or>
         arg_limit eng < length (defined_values ''alt'' (series s ''ATT''))
      then altitudeRange s
      else Some (range_text eng (least (defined_values ''alt'' (series s ''ATT'')))
                   (greatest (defined_values ''alt'' (series s ''ATT''))) ''m''))"
  by (simp add: updateFlightInfo_eq Let_def update_duration_frame series_no_data)

lemma updateFlightInfo_batteryRange:
  "batteryRange (snd (updateFlightInfo eng s)) =
     (if defined_values ''volt'' (series s ''BAT'') = [] \<or>
         arg_limit eng < length (defined_values ''volt'' (series s ''BAT'')) \<or>
         arg_limit eng < length (defined_values ''alt'' (series s ''ATT''))
      then batteryRange s
      else Some (range_text eng (least (defined_values ''volt'' (series s ''BAT'')))
                   (greatest (defined_values ''volt'' (series s ''BAT''))) ''V''))"
  by (auto simp add: updateFlightInfo_eq Let_def update_duration_frame series_no_data)

lemma updateFlightInfo_error:
  "fst (updateFlightInfo eng s) =
     (if arg_limit eng < length (defined_values ''alt'' (series s ''ATT'')) \<or>
         arg_limit eng < length (defined_values ''volt'' (series s ''BAT''))
      then Some RangeError else None)"
  by (auto simp add: updateFlightInfo_eq Let_def series_no_data)

subsection \<open>Flight duration\<close>

lemma round_double_0: "round_double 0 = Fin 0"
  by (simp add: round_double_def)

lemma round_double_60: "round_double 60 = Fin 60"
  by code_simp

lemma js_sub_NaN_right: "js_sub x NaN = NaN"
  by (cases x) simp_all

text \<open>
  Claim C3, as amended.  When the GPS series of \<open>flightData\<close> has at least one
  record, \<open>updateFlightInfo\<close> sets \<open>flightDuration\<close> to the difference, as the
  \<open>-\<close> of the language computes it, of the timestamp read from the last record
  and the one read from the first.  For two finite timestamps this is the
  double nearest to their exact difference, and the exact difference when the
  timestamps are integers no more than \<open>2\<^sup>5\<^sup>3\<close> apart; it is NaN when one of the
  two records has no timestamp.  So a series of one record gives 0 when its
  timestamp is a finite number, and NaN when it has none.  When there is no GPS
  series or it is empty, \<open>flightDuration\<close> keeps its value, which on the first
  computation (the state of \<open>data ()\<close>) is unset.
\<close>

theorem C3_flight_duration:
  "(map_of (flightData s) ''GPS'' = Some gps \<and> gps \<noteq> [] \<longrightarrow>
      flightDuration (snd (updateFlightInfo eng s)) =
        Some (js_sub (to_number (map_of (last gps) ''timestamp''))
                     (to_number (map_of (hd gps) ''timestamp''))))
   \<and> (map_of (flightData s) ''GPS'' = Some gps \<and> gps \<noteq> [] \<and>
       map_of (last gps) ''timestamp'' = Some (Fin b) \<and>
       map_of (hd gps) ''timestamp'' = Some (Fin a) \<longrightarrow>
      flightDuration (snd (updateFlightInfo eng s)) = Some (round_double (b - a)))
   \<and> (map_of (flightData s) ''GPS'' = Some gps \<and> gps \<noteq> [] \<and>
       map_of (last gps) ''timestamp'' = Some (Fin (of_int j)) \<and>
       map_of (hd gps) ''timestamp'' = Some (Fin (of_int i)) \<and> \<bar>j - i\<bar> \<le> 2 ^ 53 \<longrightarrow>
      flightDuration (snd (updateFlightInfo eng s)) = Some (Fin (of_int (j - i))))
   \<and> (map_of (flightData s) ''GPS'' = Some [r] \<and> map_of r ''timestamp'' = Some (Fin t) \<longrightarrow>
      flightDuration (snd (updateFlightInfo eng s)) = Some (Fin 0))
   \<and> (map_of (flightData s) ''GPS'' = Some gps \<and> gps \<noteq> [] \<and>
       (map_of (last gps) ''timestamp'' = None \<or> map_of (hd gps) ''timestamp'' = None) \<longrightarrow>
      flightDuration (snd (updateFlightInfo eng s)) = Some NaN)
   \<and> (map_of (flightData s) ''GPS'' = None \<or> map_of (flightData s) ''GPS'' = Some [] \<longrightarrow>
      flightDuration (snd (updateFlightInfo eng s)) = flightDuration s)
   \<and> (map_of fd ''GPS'' = None \<or> map_of fd ''GPS'' = Some [] \<longrightarrow>
      flightDuration (snd (updateFlightInfo eng (data fd))) = None)"
proof (intro conjI impI)
  assume "map_of (flightData s) ''GPS'' = Some gps \<and> gps \<noteq> []"
  then show "flightDuration (snd (updateFlightInfo eng s)) =
        Some (js_sub (to_number (map_of (last gps) ''timestamp''))
                     (to_number (map_of (hd gps) ''timestamp'')))"
    by (simp add: updateFlightInfo_flightDuration update_duration_value)
next
  assume "map_of (flightData s) ''GPS'' = Some gps \<and> gps \<noteq> [] \<and>
       map_of (last gps) ''timestamp'' = Some (Fin b) \<and>
       map_of (hd gps) ''timestamp'' = Some (Fin a)"
  then show "flightDuration (snd (updateFlightInfo eng s)) = Some (round_double (b - a))"
    by (simp add: updateFlightInfo_flightDuration update_duration_value to_number_def)
next
  assume a: "map_of (flightData s) ''GPS'' = Some gps \<and> gps \<noteq> [] \<and>
       map_of (last gps) ''timestamp'' = Some (Fin (of_int j)) \<and>
       map_of (hd gps) ''timestamp'' = Some (Fin (of_int i)) \<and> \<bar>j - i\<bar> \<le> 2 ^ 53"
  then have "round_double (of_int (j - i)) = Fin (of_int (j - i))"
    by (intro round_double_int) simp
  then have "round_double (of_int j - of_int i) = Fin (of_int (j - i))"
    by simp
  with a show "flightDuration (snd (updateFlightInfo eng s)) = Some (Fin (of_int (j - i)))"
    by (simp add: updateFlightInfo_flightDuration update_duration_value to_number_def)
next
  assume "map_of (flightData s) ''GPS'' = Some [r] \<and> map_of r ''timestamp'' = Some (Fin t)"
  then show "flightDuration (snd (updateFlightInfo eng s)) = Some (Fin 0)"
    by (simp add: updateFlightInfo_flightDuration update_duration_value to_number_def
        round_double_0)
next
  assume "map_of (flightData s) ''GPS'' = Some gps \<and> gps \<noteq> [] \<and>
       (map_of (last gps) ''timestamp'' = None \<or> map_of (hd gps) ''timestamp'' = None)"
  then show "flightDuration (snd (updateFlightInfo eng s)) = Some NaN"
    by (auto simp add: updateFlightInfo_flightDuration update_duration_value to_number_def
        js_sub_NaN_right)
next
  assume "map_of (flightData s) ''GPS'' = None \<or> map_of (flightData s) ''GPS'' = Some []"
  then show "flightDuration (snd (updateFlightInfo eng s)) = flightDuration s"
    by (auto simp add: updateFlightInfo_flightDuration update_duration_value)
next
  assume "map_of fd ''GPS'' = None \<or> map_of fd ''GPS'' = Some []"
  then show "flightDuration (snd (updateFlightInfo eng (data fd))) = None"
    by (auto simp add: updateFlightInfo_flightDuration update_duration_value data_def)
qed

text \<open>
  Claim C3 as first stated fails: a GPS series of the one record \<open>{lat: 1}\<close>,
  which has no timestamp, gives NaN and not 0.
\<close>

theorem C3_counterexample:
  "flightDuration (snd (updateFlightInfo example_engine (data [(''GPS'', [[(''lat'', Fin 1)]])]))) =
     Some NaN"
  by (simp add: updateFlightInfo_flightDuration update_duration_value data_def to_number_def)

text \<open>
  The theorem at four GPS series: timestamps 40, 70, 100 give 60; one record
  with a timestamp gives 0; one record without gives NaN; an empty series
  keeps an earlier value; and without a GPS series the first computation
  leaves the field unset.
\<close>

theorem C3_flight_duration_witness:
  "flightDuration (snd (updateFlightInfo example_engine (data gps_example))) = Some (Fin 60)
   \<and> flightDuration (snd (updateFlightInfo example_engine
        (data [(''GPS'', [[(''timestamp'', Fin 7)]])]))) = Some (Fin 0)
   \<and> flightDuration (snd (updateFlightInfo example_engine
        (data [(''GPS'', [[(''lat'', Fin 1)]])]))) = Some NaN
   \<and> flightDuration (snd (updateFlightInfo example_engine
        ((data [(''GPS'', [])])\<lparr>flightDuration := Some (Fin 5)\<rparr>))) = Some (Fin 5)
   \<and> flightDuration (snd (updateFlightInfo example_engine (data [(''ATT'', [])]))) = None"
  using
    C3_flight_duration [where s = "data gps_example" and eng = example_engine
      and gps = "[[(''timestamp'', Fin 40)], [(''timestamp'', Fin 70)], [(''timestamp'', Fin 100)]]"
      and b = 100 and a = 40 and j = 100 and i = 40 and r = "[]" and t = 0
      and fd = "[(''ATT'', [])]"]
    C3_flight_duration [where s = "data [(''GPS'', [[(''timestamp'', Fin 7)]])]"
      and eng = example_engine and gps = "[[(''timestamp'', Fin 7)]]"
      and b = 7 and a = 7 and j = 7 and i = 7 and r = "[(''timestamp'', Fin 7)]" and t = 7
      and fd = "[]"]
    C3_flight_duration [where s = "data [(''GPS'', [[(''lat'', Fin 1)]])]"
      and eng = example_engine and gps = "[[(''lat'', Fin 1)]]"
      and b = 0 and a = 0 and j = 0 and i = 0 and r = "[]" and t = 0 and fd = "[]"]
    C3_flight_duration [where s = "(data [(''GPS'', [])])\<lparr>flightDuration := Some (Fin 5)\<rparr>"
      and eng = example_engine and gps = "[]"
      and b = 0 and a = 0 and j = 0 and i = 0 and r = "[]" and t = 0 and fd = "[]"]
  by (simp add: data_def gps_example_def to_number_def round_double_60 round_double_0)

subsection \<open>Altitude and battery range\<close>

lemma floor_rat_numeral_div:
  "\<lfloor>numeral a / numeral b :: rat\<rfloor> = numeral a div numeral b"
  by (metis floor_divide_of_int_eq of_int_numeral)

lemma toFixed_1: "toFixed big (Suc 0) (Fin 1) = js_str ''1.0''"
  by (simp add: toFixed_def digits_small digits_large digit_def js_str_def Let_def
      floor_rat_numeral_div)

lemma toFixed_21_4: "toFixed big (Suc 0) (Fin (21 / 4)) = js_str ''5.3''"
  by (simp add: toFixed_def digits_small digits_large digit_def js_str_def Let_def
      floor_rat_numeral_div)

lemma js_str_append: "js_str (a @ b) = js_str a @ js_str b"
  by (simp add: js_str_def)

lemma range_text_example:
  "range_text eng (least [Fin 1, Fin (21 / 4)]) (greatest [Fin 1, Fin (21 / 4)]) ''m'' =
     js_str ''1.0m - 5.3m''"
  by (simp add: range_text_def least_def greatest_def toFixed_1 toFixed_21_4
      js_str_append [symmetric])

lemma defined_values_att_example:
  "defined_values ''alt'' att_example = [Fin 1, Fin (21 / 4)]"
  by (simp add: defined_values_def att_example_def)

text \<open>
  Claim C1, as amended.  For a \<open>flightData\<close> whose ATT series is the three
  records \<open>[{alt: 1.0}, {alt: 5.25}, {}]\<close>, \<open>updateFlightInfo\<close> sets the
  altitude range to the string \<open>1.0m - 5.3m\<close>: both bounds are printed with one
  decimal, and 5.25 rounds to 5.3.  Records that lack \<open>alt\<close> are ignored by the
  minimum and the maximum: removing them from a series does not change the
  result.
\<close>

theorem C1_altitude_range:
  "(map_of (flightData s) ''ATT'' = Some att_example \<longrightarrow>
      altitudeRange (snd (updateFlightInfo eng s)) = Some (js_str ''1.0m - 5.3m''))
   \<and> (map_of (flightData s) ''ATT'' = Some att \<and>
       map_of (flightData s') ''ATT'' = Some (filter (\<lambda>m. map_of m ''alt'' \<noteq> None) att) \<and>
       altitudeRange s' = altitudeRange s \<longrightarrow>
      altitudeRange (snd (updateFlightInfo eng s')) =
        altitudeRange (snd (updateFlightInfo eng s)))"
proof (intro conjI impI)
  assume "map_of (flightData s) ''ATT'' = Some att_example"
  then have "series s ''ATT'' = att_example"
    by (rule series_Some)
  moreover have "\<not> arg_limit eng < 2"
    using arg_limit_floor [of eng] by simp
  ultimately show "altitudeRange (snd (updateFlightInfo eng s)) = Some (js_str ''1.0m - 5.3m'')"
    by (simp add: updateFlightInfo_altitudeRange defined_values_att_example range_text_example)
next
  assume a: "map_of (flightData s) ''ATT'' = Some att \<and>
       map_of (flightData s') ''ATT'' = Some (filter (\<lambda>m. map_of m ''alt'' \<noteq> None) att) \<and>
       altitudeRange s' = altitudeRange s"
  then have "series s ''ATT'' = att"
    and "series s' ''ATT'' = filter (\<lambda>m. map_of m ''alt'' \<noteq> None) att"
    by (simp_all only: series_Some)
  then have "defined_values ''alt'' (series s' ''ATT'') = defined_values ''alt'' (series s ''ATT'')"
    by (simp only: defined_values_filter)
  with a show "altitudeRange (snd (updateFlightInfo eng s')) =
        altitudeRange (snd (updateFlightInfo eng s))"
    by (simp only: updateFlightInfo_altitudeRange)
qed

text \<open>
  The theorem at the property \<open>{ATT: [{alt: 1.0}, {alt: 5.25}, {}]}\<close> in a
  fresh component, and at the same series without its last record.
\<close>

theorem C1_altitude_range_witness:
  "altitudeRange (snd (updateFlightInfo example_engine (data [(''ATT'', att_example)]))) =
     Some (js_str ''1.0m - 5.3m'')
   \<and> altitudeRange (snd (updateFlightInfo example_engine
        (data [(''ATT'', [[(''alt'', Fin 1)], [(''alt'', Fin (21 / 4))]])]))) =
     altitudeRange (snd (updateFlightInfo example_engine (data [(''ATT'', att_example)])))"
  using C1_altitude_range [where s = "data [(''ATT'', att_example)]" and eng = example_engine
      and att = att_example
      and s' = "data [(''ATT'', [[(''alt'', Fin 1)], [(''alt'', Fin (21 / 4))]])]"]
  by (simp add: data_def att_example_def)

text \<open>
  Claim C1 as first stated fails: on that input the altitude range is not the
  string \<open>1.0m - 5.25m\<close>.
\<close>

theorem C1_counterexample:
  "altitudeRange (snd (updateFlightInfo example_engine (data [(''ATT'', att_example)]))) \<noteq>
     Some (js_str ''1.0m - 5.25m'')"
proof -
  have "series (data [(''ATT'', att_example)]) ''ATT'' = att_example"
    by (simp add: series_def data_def)
  moreover have "\<not> arg_limit example_engine < 2"
    using arg_limit_floor [of example_engine] by simp
  ultimately have
    "altitudeRange (snd (updateFlightInfo example_engine (data [(''ATT'', att_example)]))) =
     Some (js_str ''1.0m - 5.3m'')"
    by (simp add: updateFlightInfo_altitudeRange defined_values_att_example range_text_example)
  moreover have "js_str ''1.0m - 5.3m'' \<noteq> js_str ''1.0m - 5.25m''"
    by (simp add: js_str_def)
  ultimately show ?thesis by simp
qed

text \<open>
  Claim C9.  When the ATT series is not empty and none of its records defines
  \<open>alt\<close>, \<open>updateFlightInfo\<close> leaves \<open>altitudeRange\<close> as it was: the minimum
  and maximum of no value (the infinities) are never formatted.  The same
  holds for a BAT series without \<open>volt\<close> and \<open>batteryRange\<close>.
\<close>

theorem C9_no_defined_field:
  "(map_of (flightData s) ''ATT'' = Some att \<and> att \<noteq> [] \<and>
      (\<forall>m \<in> set att. map_of m ''alt'' = None) \<longrightarrow>
      altitudeRange (snd (updateFlightInfo eng s)) = altitudeRange s)
   \<and> (map_of (flightData s) ''BAT'' = Some bat \<and> bat \<noteq> [] \<and>
      (\<forall>m \<in> set bat. map_of m ''volt'' = None) \<longrightarrow>
      batteryRange (snd (updateFlightInfo eng s)) = batteryRange s)"
proof (intro conjI impI)
  assume "map_of (flightData s) ''ATT'' = Some att \<and> att \<noteq> [] \<and>
      (\<forall>m \<in> set att. map_of m ''alt'' = None)"
  then have "defined_values ''alt'' (series s ''ATT'') = []"
    by (simp add: series_Some defined_values_empty_iff)
  then show "altitudeRange (snd (updateFlightInfo eng s)) = altitudeRange s"
    by (simp add: updateFlightInfo_altitudeRange)
next
  assume "map_of (flightData s) ''BAT'' = Some bat \<and> bat \<noteq> [] \<and>
      (\<forall>m \<in> set bat. map_of m ''volt'' = None)"
  then have "defined_values ''volt'' (series s ''BAT'') = []"
    by (simp add: series_Some defined_values_empty_iff)
  then show "batteryRange (snd (updateFlightInfo eng s)) = batteryRange s"
    by (simp add: updateFlightInfo_batteryRange)
qed

text \<open>
  The theorem at a property with an ATT series of two records without \<open>alt\<close>
  and a BAT series of one record without \<open>volt\<close>, in a component whose two
  range fields are unset, and in one whose fields hold earlier strings.
\<close>

theorem C9_no_defined_field_witness:
  "altitudeRange (snd (updateFlightInfo example_engine (data no_field_example))) = None
   \<and> batteryRange (snd (updateFlightInfo example_engine (data no_field_example))) = None
   \<and> altitudeRange (snd (updateFlightInfo example_engine
        ((data no_field_example)\<lparr>altitudeRange := Some (js_str ''1.0m - 2.0m'')\<rparr>))) =
       Some (js_str ''1.0m - 2.0m'')
   \<and> batteryRange (snd (updateFlightInfo example_engine
        ((data no_field_example)\<lparr>batteryRange := Some (js_str ''11.1V - 12.6V'')\<rparr>))) =
       Some (js_str ''11.1V - 12.6V'')"
  using
    C9_no_defined_field [where s = "data no_field_example"
      and att = "[[(''roll'', Fin 2)], []]" and bat = "[[(''curr'', Fin 3)]]"
      and eng = example_engine]
    C9_no_defined_field [where
      s = "(data no_field_example)\<lparr>altitudeRange := Some (js_str ''1.0m - 2.0m'')\<rparr>"
      and att = "[[(''roll'', Fin 2)], []]" and bat = "[[(''curr'', Fin 3)]]"
      and eng = example_engine]
    C9_no_defined_field [where
      s = "(data no_field_example)\<lparr>batteryRange := Some (js_str ''11.1V - 12.6V'')\<rparr>"
      and att = "[[(''roll'', Fin 2)], []]" and bat = "[[(''curr'', Fin 3)]]"
      and eng = example_engine]
  by (simp add: data_def no_field_example_def)

subsection \<open>The parts of \<open>sendMessage\<close> and the watcher, field by field\<close>

lemma js_trim_empty_iff: "js_trim t = [] \<longleftrightarrow> (\<forall>c \<in> set t. js_whitespace c)"
proof
  assume "js_trim t = []"
  then have "dropWhile js_whitespace (rev (dropWhile js_whitespace t)) = []"
    by (simp add: js_trim_def)
  then have "\<forall>c \<in> set (dropWhile js_whitespace t). js_whitespace c"
    by (simp add: dropWhile_eq_Nil_conv)
  then have "dropWhile js_whitespace t = []"
    using hd_dropWhile [of js_whitespace t] by (cases "dropWhile js_whitespace t") auto
  then show "\<forall>c \<in> set t. js_whitespace c"
    by (simp add: dropWhile_eq_Nil_conv)
next
  assume "\<forall>c \<in> set t. js_whitespace c"
  then show "js_trim t = []"
    by (auto simp add: js_trim_def dest: set_dropWhileD)
qed

lemma sendMessage_rejected:
  "js_trim (newMessage s) = [] \<or> isLoading s \<or> flightData s = [] \<Longrightarrow> sendMessage s = s"
  by (auto simp add: sendMessage_def hasFlightData_iff)

lemma sendMessage_accepted:
  assumes "js_trim (newMessage s) \<noteq> []" "\<not> isLoading s" "flightData s \<noteq> []"
  shows "newMessage (sendMessage s) = []"
    and "isLoading (sendMessage s)"
    and "messages (sendMessage s) = messages s @ [\<lparr>role = ''user'', content = String (newMessage s)\<rparr>]"
    and "inflight (sendMessage s) = inflight s @
           [\<lparr>url = ''http://localhost:8001/chat'', body_message = newMessage s,
             body_sessionId = sessionId s\<rparr>]"
    and "flightData (sendMessage s) = flightData s"
    and "flightDuration (sendMessage s) = flightDuration s"
    and "altitudeRange (sendMessage s) = altitudeRange s"
    and "batteryRange (sendMessage s) = batteryRange s"
    and "console (sendMessage s) = console s"
  using assms by (simp_all add: sendMessage_def hasFlightData_iff push_def Let_def)

lemma catch_block_fields:
  "messages (catch_block e s) = messages s @ [\<lparr>role = ''assistant'', content = String fallback_text\<rparr>]"
  "console (catch_block e s) = console s @ [e]"
  "newMessage (catch_block e s) = newMessage s"
  "inflight (catch_block e s) = inflight s"
  "scrolls (catch_block e s) = scrolls s"
  by (simp_all add: catch_block_def push_def)

lemma settled_isLoading: "isLoading (sendMessage_settled r s) = False"
  by (simp add: sendMessage_settled_def Let_def)

lemma settled_frame:
  "newMessage (sendMessage_settled r s) = newMessage s"
  "inflight (sendMessage_settled r s) = inflight s"
  by (simp_all add: sendMessage_settled_def Let_def catch_block_def push_def
      split: http_outcome.split sum.split)

lemma settled_failed:
  "r = Rejected e \<or> (r = Resolved d \<and> read_response d = Inl e) \<Longrightarrow>
     messages (sendMessage_settled r s) =
       messages s @ [\<lparr>role = ''assistant'', content = String fallback_text\<rparr>]
     \<and> console (sendMessage_settled r s) = console s @ [e]
     \<and> scrolls (sendMessage_settled r s) = scrolls s"
  by (auto simp add: sendMessage_settled_def Let_def catch_block_fields)

lemma settled_replied:
  "read_response d = Inr v \<Longrightarrow>
     messages (sendMessage_settled (Resolved d) s) =
       messages s @ [\<lparr>role = ''assistant'', content = v\<rparr>]
     \<and> console (sendMessage_settled (Resolved d) s) = console s
     \<and> scrolls (sendMessage_settled (Resolved d) s) = scrolls s + 1"
  by (simp add: sendMessage_settled_def Let_def push_def)

lemma settled_messages:
  "\<exists>v. messages (sendMessage_settled r s) = messages s @ [\<lparr>role = ''assistant'', content = v\<rparr>]"
proof (cases r)
  case (Resolved d)
  then show ?thesis
    by (cases "read_response d") (simp_all add: settled_failed settled_replied)
next
  case (Rejected e)
  then show ?thesis by (simp add: settled_failed)
qed

lemma handler_eq:
  "flightData_handler eng fd s =
     (if fd = [] then s
      else
        (case fst (updateFlightInfo eng s) of
           Some e \<Rightarrow>
             (snd (updateFlightInfo eng s))
               \<lparr>uncaught := uncaught (snd (updateFlightInfo eng s)) @ [e]\<rparr>
         | None \<Rightarrow>
             if messages (snd (updateFlightInfo eng s)) = []
             then push \<lparr>role = ''assistant'', content = String greeting_text\<rparr>
                    (snd (updateFlightInfo eng s))
             else snd (updateFlightInfo eng s)))"
  by (simp add: flightData_handler_def split: prod.split option.split)

lemma handler_frame:
  "newMessage (flightData_handler eng fd s) = newMessage s"
  "isLoading (flightData_handler eng fd s) = isLoading s"
  "inflight (flightData_handler eng fd s) = inflight s"
  "flightData (flightData_handler eng fd s) = flightData s"
  "console (flightData_handler eng fd s) = console s"
  by (simp_all add: handler_eq push_def updateFlightInfo_frame split: option.split)

lemma handler_messages:
  "messages (flightData_handler eng fd s) =
     (if fd \<noteq> [] \<and> messages s = [] \<and> fst (updateFlightInfo eng s) = None
      then [\<lparr>role = ''assistant'', content = String greeting_text\<rparr>]
      else messages s)"
  by (simp add: handler_eq push_def updateFlightInfo_frame split: option.split)

lemma handler_uncaught:
  "uncaught (flightData_handler eng fd s) =
     (if fd \<noteq> [] \<and> fst (updateFlightInfo eng s) \<noteq> None
      then uncaught s @ [the (fst (updateFlightInfo eng s))]
      else uncaught s)"
  by (auto simp add: handler_eq push_def updateFlightInfo_frame split: option.split)


subsection \<open>Runs\<close>

lemma run_Nil: "run eng s [] = s"
  by (simp add: run_def)

lemma run_snoc: "run eng s (evs @ [e]) = step eng (run eng s evs) e"
  by (simp add: run_def)

lemma step_one_request:
  assumes "isLoading s \<longleftrightarrow> inflight s \<noteq> []" and "length (inflight s) \<le> 1"
  shows "(isLoading (step eng s e) \<longleftrightarrow> inflight (step eng s e) \<noteq> [])
         \<and> length (inflight (step eng s e)) \<le> 1"
proof (cases e)
  case (Typed t)
  with assms show ?thesis by simp
next
  case Send
  show ?thesis
  proof (cases "js_trim (newMessage s) = [] \<or> isLoading s \<or> flightData s = []")
    case True
    with assms Send show ?thesis by (simp add: sendMessage_rejected)
  next
    case False
    with assms Send show ?thesis by (simp add: sendMessage_accepted)
  qed
next
  case (Settled r)
  with assms show ?thesis
    by (cases "inflight s") (simp_all add: settled_isLoading settled_frame)
next
  case (FlightDataChanged fd)
  with assms show ?thesis by (simp add: handler_frame)
qed

lemma mount_one_request:
  "\<not> isLoading (mount eng fd sid)" "inflight (mount eng fd sid) = []"
  by (simp_all add: mount_def mounted_def handler_frame data_def)

lemma run_one_request:
  assumes "isLoading s \<longleftrightarrow> inflight s \<noteq> []" and "length (inflight s) \<le> 1"
  shows "(isLoading (run eng s evs) \<longleftrightarrow> inflight (run eng s evs) \<noteq> [])
         \<and> length (inflight (run eng s evs)) \<le> 1"
proof (induction evs rule: rev_induct)
  case Nil
  with assms show ?case by (simp add: run_Nil)
next
  case (snoc e evs)
  then show ?case
    using step_one_request [of "run eng s evs" eng e] by (simp add: run_snoc)
qed

subsection \<open>Sending a message\<close>

text \<open>
  Claim C4.  \<open>sendMessage\<close> changes nothing (no message is appended, the input
  field, the busy flag and the pending requests stay as they are) when the
  input text is empty or consists of white space only, when \<open>isLoading\<close> is
  set, or when \<open>flightData\<close> is the empty mapping.  Hence, whatever happens to
  a mounted component, at most one request is pending at any time, and one is
  pending exactly when \<open>isLoading\<close> is set: a send attempt while busy returns
  at once and queues nothing.
\<close>

theorem C4_sendMessage_guard:
  "(newMessage s = [] \<or> (\<forall>c \<in> set (newMessage s). js_whitespace c) \<or> isLoading s \<or>
      flightData s = [] \<longrightarrow> sendMessage s = s \<and> step eng s Send = s)
   \<and> length (inflight (run eng (mount eng fd sid) evs)) \<le> 1
   \<and> (isLoading (run eng (mount eng fd sid) evs) \<longleftrightarrow>
        inflight (run eng (mount eng fd sid) evs) \<noteq> [])"
proof (intro conjI impI)
  assume g: "newMessage s = [] \<or> (\<forall>c \<in> set (newMessage s). js_whitespace c) \<or> isLoading s \<or>
      flightData s = []"
  then have "js_trim (newMessage s) = [] \<or> isLoading s \<or> flightData s = []"
    by (auto simp add: js_trim_empty_iff)
  then show "sendMessage s = s" by (rule sendMessage_rejected)
  then show "step eng s Send = s" by simp
next
  show "length (inflight (run eng (mount eng fd sid) evs)) \<le> 1"
    using run_one_request [of "mount eng fd sid" eng evs] by (simp add: mount_one_request)
  show "isLoading (run eng (mount eng fd sid) evs) \<longleftrightarrow>
        inflight (run eng (mount eng fd sid) evs) \<noteq> []"
    using run_one_request [of "mount eng fd sid" eng evs] by (simp add: mount_one_request)
qed

text \<open>The definitions a concrete run is evaluated with.\<close>

lemmas eval_defs = run_def mount_def mounted_def data_def flightData_handler_def
  updateFlightInfo_def update_duration_def update_altitude_def update_battery_def
  hasFlightData_def push_def sendMessage_def sendMessage_settled_def catch_block_def
  js_trim_def js_whitespace_def js_str_def Let_def to_number_def gps_example_def

lemma ex_run:
  "map body_message (inflight (run example_engine (mount example_engine gps_example (js_str ''17''))
       [Typed (js_str ''hi''), Send, Typed (js_str ''yo''), Send])) = [js_str ''hi'']"
  by (simp add: eval_defs)

text \<open>
  The theorem at an input of two blanks, at an empty \<open>flightData\<close>, at a busy
  component, and at a run in which the user sends twice before the first
  request settles: only the first text is on its way.
\<close>

theorem C4_sendMessage_guard_witness:
  "sendMessage ((data gps_example)\<lparr>newMessage := js_str ''  ''\<rparr>) =
     (data gps_example)\<lparr>newMessage := js_str ''  ''\<rparr>
   \<and> sendMessage ((data [])\<lparr>newMessage := js_str ''hi''\<rparr>) = (data [])\<lparr>newMessage := js_str ''hi''\<rparr>
   \<and> sendMessage ((data gps_example)\<lparr>newMessage := js_str ''hi'', isLoading := True\<rparr>) =
     (data gps_example)\<lparr>newMessage := js_str ''hi'', isLoading := True\<rparr>
   \<and> length (inflight (run example_engine (mount example_engine gps_example (js_str ''17''))
       [Typed (js_str ''hi''), Send, Typed (js_str ''yo''), Send])) \<le> 1
   \<and> map body_message (inflight (run example_engine (mount example_engine gps_example (js_str ''17''))
       [Typed (js_str ''hi''), Send, Typed (js_str ''yo''), Send])) = [js_str ''hi'']"
  using
    C4_sendMessage_guard [where s = "(data gps_example)\<lparr>newMessage := js_str ''  ''\<rparr>"
      and eng = example_engine and fd = gps_example and sid = "js_str ''17''"
      and evs = "[Typed (js_str ''hi''), Send, Typed (js_str ''yo''), Send]"]
    C4_sendMessage_guard [where s = "(data [])\<lparr>newMessage := js_str ''hi''\<rparr>"
      and eng = example_engine and fd = gps_example and sid = "js_str ''17''" and evs = "[]"]
    C4_sendMessage_guard [where
      s = "(data gps_example)\<lparr>newMessage := js_str ''hi'', isLoading := True\<rparr>"
      and eng = example_engine and fd = gps_example and sid = "js_str ''17''" and evs = "[]"]
    ex_run
  by (simp add: data_def js_str_def js_whitespace_def)

text \<open>
  Claim C5.  When the promise of the HTTP call is rejected, the rest of
  \<open>sendMessage\<close> appends exactly one assistant message, with the fixed text
  \<open>Sorry, there was an error processing your message.\<close>, and \<open>isLoading\<close> is
  false once the call has settled, whatever the outcome.
\<close>

theorem C5_failure_fallback:
  "messages (sendMessage_settled (Rejected e) s) =
     messages s @ [\<lparr>role = ''assistant'',
       content = String (js_str ''Sorry, there was an error processing your message.'')\<rparr>]
   \<and> isLoading (sendMessage_settled r s) = False
   \<and> (inflight s \<noteq> [] \<longrightarrow>
        messages (step eng s (Settled (Rejected e))) =
          messages s @ [\<lparr>role = ''assistant'',
            content = String (js_str ''Sorry, there was an error processing your message.'')\<rparr>]
        \<and> isLoading (step eng s (Settled r)) = False)"
proof (intro conjI impI)
  show "messages (sendMessage_settled (Rejected e) s) =
     messages s @ [\<lparr>role = ''assistant'',
       content = String (js_str ''Sorry, there was an error processing your message.'')\<rparr>]"
    by (simp add: settled_failed fallback_text_def)
  show "isLoading (sendMessage_settled r s) = False"
    by (rule settled_isLoading)
next
  assume "inflight s \<noteq> []"
  then obtain q qs where q: "inflight s = q # qs"
    by (cases "inflight s") auto
  then show "messages (step eng s (Settled (Rejected e))) =
          messages s @ [\<lparr>role = ''assistant'',
            content = String (js_str ''Sorry, there was an error processing your message.'')\<rparr>]"
    by (simp add: settled_failed fallback_text_def)
  from q show "isLoading (step eng s (Settled r)) = False"
    by (simp add: settled_isLoading)
qed

lemma ex_failed_run:
  "run example_engine (mount example_engine gps_example (js_str ''17''))
       [Typed (js_str ''hi''), Send] = s \<Longrightarrow> inflight s \<noteq> [] \<and> isLoading s \<and>
     map role (messages s) = [''assistant'', ''user'']"
  by (auto simp add: eval_defs)

text \<open>
  The theorem at a mounted component whose request for \<open>hi\<close> times out, and
  at one whose request is answered.
\<close>

theorem C5_failure_fallback_witness:
  "map role (messages (run example_engine (mount example_engine gps_example (js_str ''17''))
       [Typed (js_str ''hi''), Send, Settled (Rejected Timeout)])) =
     [''assistant'', ''user'', ''assistant'']
   \<and> content (last (messages (run example_engine (mount example_engine gps_example (js_str ''17''))
       [Typed (js_str ''hi''), Send, Settled (Rejected Timeout)]))) =
     String (js_str ''Sorry, there was an error processing your message.'')
   \<and> \<not> isLoading (run example_engine (mount example_engine gps_example (js_str ''17''))
       [Typed (js_str ''hi''), Send, Settled (Rejected Timeout)])
   \<and> \<not> isLoading (run example_engine (mount example_engine gps_example (js_str ''17''))
       [Typed (js_str ''hi''), Send, Settled (Resolved (Object [(''response'', String (js_str ''ok''))]))])"
  using
    C5_failure_fallback [where eng = example_engine and e = Timeout and r = "Rejected Timeout"
      and s = "run example_engine (mount example_engine gps_example (js_str ''17''))
       [Typed (js_str ''hi''), Send]"]
    C5_failure_fallback [where eng = example_engine and e = Timeout
      and r = "Resolved (Object [(''response'', String (js_str ''ok''))])"
      and s = "run example_engine (mount example_engine gps_example (js_str ''17''))
       [Typed (js_str ''hi''), Send]"]
    ex_failed_run [OF refl]
    run_snoc [of example_engine "mount example_engine gps_example (js_str ''17'')"
      "[Typed (js_str ''hi''), Send]"]
  by simp

text \<open>
  Claim C6, as amended.  Every outcome that rejects the promise (a timeout, a
  refused connection, a status outside 2xx), and a fulfilled one whose data is
  \<open>undefined\<close> or \<open>null\<close>, gives the same single assistant message with the
  fixed text; the error itself goes to the console, not into the message list.
  A fulfilled response whose body is an object is never treated as a failure:
  the assistant message carries the value of its \<open>response\<close> property, which
  is \<open>undefined\<close> when the body lacks that property.
\<close>

theorem C6_failure_causes:
  "(r = Rejected e \<or> (r = Resolved Undefined \<and> e = TypeError) \<or> (r = Resolved Null \<and> e = TypeError) \<longrightarrow>
      messages (sendMessage_settled r s) =
        messages s @ [\<lparr>role = ''assistant'',
          content = String (js_str ''Sorry, there was an error processing your message.'')\<rparr>]
      \<and> console (sendMessage_settled r s) = console s @ [e])
   \<and> (map_of kvs ''response'' = Some v \<longrightarrow>
      messages (sendMessage_settled (Resolved (Object kvs)) s) =
        messages s @ [\<lparr>role = ''assistant'', content = v\<rparr>])
   \<and> (map_of kvs ''response'' = None \<longrightarrow>
      messages (sendMessage_settled (Resolved (Object kvs)) s) =
        messages s @ [\<lparr>role = ''assistant'', content = Undefined\<rparr>])"
proof (intro conjI impI)
  assume a: "r = Rejected e \<or> (r = Resolved Undefined \<and> e = TypeError) \<or> (r = Resolved Null \<and> e = TypeError)"
  then have f: "r = Rejected e \<or> (\<exists>d. r = Resolved d \<and> read_response d = Inl e)"
    by auto
  then show "messages (sendMessage_settled r s) =
        messages s @ [\<lparr>role = ''assistant'',
          content = String (js_str ''Sorry, there was an error processing your message.'')\<rparr>]"
    using settled_failed [of r e _ s] by (auto simp add: fallback_text_def)
  from f show "console (sendMessage_settled r s) = console s @ [e]"
    using settled_failed [of r e _ s] by auto
next
  assume "map_of kvs ''response'' = Some v"
  then show "messages (sendMessage_settled (Resolved (Object kvs)) s) =
        messages s @ [\<lparr>role = ''assistant'', content = v\<rparr>]"
    by (simp add: settled_replied)
next
  assume "map_of kvs ''response'' = None"
  then show "messages (sendMessage_settled (Resolved (Object kvs)) s) =
        messages s @ [\<lparr>role = ''assistant'', content = Undefined\<rparr>]"
    by (simp add: settled_replied)
qed

text \<open>
  Claim C6 as first stated fails: after a 2xx response with the body \<open>{}\<close>
  the last message of the list has the content \<open>undefined\<close>.
\<close>

theorem C6_counterexample:
  "content (last (messages (run example_engine (mount example_engine gps_example (js_str ''17''))
       [Typed (js_str ''hi''), Send, Settled (Resolved (Object []))]))) = Undefined"
  by (simp add: eval_defs)

text \<open>
  The theorem at a status 500, a timeout, a refused connection, a body
  \<open>null\<close>, a body with the property \<open>response\<close> and a body without it.
\<close>

theorem C6_failure_causes_witness:
  "map content (messages (sendMessage_settled (Rejected (BadStatus 500)) (data gps_example))) =
     [String (js_str ''Sorry, there was an error processing your message.'')]
   \<and> map content (messages (sendMessage_settled (Rejected Timeout) (data gps_example))) =
     [String (js_str ''Sorry, there was an error processing your message.'')]
   \<and> map content (messages (sendMessage_settled (Rejected ConnectionRefused) (data gps_example))) =
     [String (js_str ''Sorry, there was an error processing your message.'')]
   \<and> map content (messages (sendMessage_settled (Resolved Null) (data gps_example))) =
     [String (js_str ''Sorry, there was an error processing your message.'')]
   \<and> console (sendMessage_settled (Rejected (BadStatus 500)) (data gps_example)) = [BadStatus 500]
   \<and> map content (messages (sendMessage_settled
         (Resolved (Object [(''response'', String (js_str ''ok''))])) (data gps_example))) =
     [String (js_str ''ok'')]
   \<and> map content (messages (sendMessage_settled
         (Resolved (Object [(''reply'', String (js_str ''ok''))])) (data gps_example))) =
     [Undefined]"
  using
    C6_failure_causes [where r = "Rejected (BadStatus 500)" and e = "BadStatus 500"
      and s = "data gps_example" and kvs = "[(''response'', String (js_str ''ok''))]"
      and v = "String (js_str ''ok'')"]
    C6_failure_causes [where r = "Rejected Timeout" and e = Timeout
      and s = "data gps_example" and kvs = "[(''reply'', String (js_str ''ok''))]"
      and v = Undefined]
    C6_failure_causes [where r = "Rejected ConnectionRefused" and e = ConnectionRefused
      and s = "data gps_example" and kvs = "[]" and v = Undefined]
    C6_failure_causes [where r = "Resolved Null" and e = TypeError
      and s = "data gps_example" and kvs = "[]" and v = Undefined]
  by (simp add: data_def)

subsection \<open>The message list\<close>

lemma step_messages:
  "\<exists>new. messages (step eng s e) = messages s @ new \<and> length new \<le> 1 \<and>
     (\<forall>m \<in> set new. role m = ''user'' \<or> role m = ''assistant'')"
proof (cases e)
  case (Typed t)
  then show ?thesis by simp
next
  case Send
  show ?thesis
  proof (cases "js_trim (newMessage s) = [] \<or> isLoading s \<or> flightData s = []")
    case True
    with Send show ?thesis by (simp add: sendMessage_rejected)
  next
    case False
    with Send show ?thesis by (simp add: sendMessage_accepted)
  qed
next
  case (Settled r)
  show ?thesis
  proof (cases "inflight s")
    case Nil
    with Settled show ?thesis by simp
  next
    case (Cons q qs)
    obtain v where "messages (sendMessage_settled r (s\<lparr>inflight := qs\<rparr>)) =
        messages s @ [\<lparr>role = ''assistant'', content = v\<rparr>]"
      using settled_messages [of r "s\<lparr>inflight := qs\<rparr>"] by auto
    with Settled Cons show ?thesis by simp
  qed
next
  case (FlightDataChanged fd)
  then show ?thesis by (simp add: handler_messages)
qed

lemma run_messages:
  "\<exists>new. messages (run eng s evs) = messages s @ new \<and>
     (\<forall>m \<in> set new. role m = ''user'' \<or> role m = ''assistant'')"
proof (induction evs rule: rev_induct)
  case Nil
  then show ?case by (simp add: run_Nil)
next
  case (snoc e evs)
  then obtain new where n: "messages (run eng s evs) = messages s @ new"
      "\<forall>m \<in> set new. role m = ''user'' \<or> role m = ''assistant''"
    by auto
  obtain new' where n': "messages (step eng (run eng s evs) e) = messages (run eng s evs) @ new'"
      "\<forall>m \<in> set new'. role m = ''user'' \<or> role m = ''assistant''"
    using step_messages [of eng "run eng s evs" e] by auto
  have "messages (run eng s (evs @ [e])) = messages s @ (new @ new')"
    using n n' by (simp add: run_snoc)
  moreover have "\<forall>m \<in> set (new @ new'). role m = ''user'' \<or> role m = ''assistant''"
    using n n' by auto
  ultimately show ?case by blast
qed

text \<open>
  Claim C8.  The message list is append-only.  Each operation of the component
  (\<open>sendMessage\<close> up to its \<open>await\<close>, its rest after success or failure, the
  watcher of \<open>flightData\<close>) and every sequence of events leaves the messages
  already present where they are, unchanged, and appends only messages whose
  role is \<open>user\<close> or \<open>assistant\<close>; the length of the list never decreases.
\<close>

theorem C8_append_only:
  "(\<exists>new. messages (sendMessage s) = messages s @ new \<and>
       (\<forall>m \<in> set new. role m = ''user'' \<or> role m = ''assistant''))
   \<and> (\<exists>new. messages (sendMessage_settled r s) = messages s @ new \<and>
       (\<forall>m \<in> set new. role m = ''user'' \<or> role m = ''assistant''))
   \<and> (\<exists>new. messages (flightData_handler eng fd s) = messages s @ new \<and>
       (\<forall>m \<in> set new. role m = ''user'' \<or> role m = ''assistant''))
   \<and> (\<exists>new. messages (run eng s evs) = messages s @ new \<and>
       (\<forall>m \<in> set new. role m = ''user'' \<or> role m = ''assistant''))
   \<and> (i < length (messages s) \<longrightarrow> messages (run eng s evs) ! i = messages s ! i)
   \<and> length (messages s) \<le> length (messages (run eng s evs))"
proof (intro conjI impI)
  show "\<exists>new. messages (sendMessage s) = messages s @ new \<and>
       (\<forall>m \<in> set new. role m = ''user'' \<or> role m = ''assistant'')"
    using step_messages [of eng s Send] by auto
  show "\<exists>new. messages (sendMessage_settled r s) = messages s @ new \<and>
       (\<forall>m \<in> set new. role m = ''user'' \<or> role m = ''assistant'')"
    using settled_messages [of r s] by auto
  show "\<exists>new. messages (flightData_handler eng fd s) = messages s @ new \<and>
       (\<forall>m \<in> set new. role m = ''user'' \<or> role m = ''assistant'')"
    by (simp add: handler_messages)
  show "\<exists>new. messages (run eng s evs) = messages s @ new \<and>
       (\<forall>m \<in> set new. role m = ''user'' \<or> role m = ''assistant'')"
    by (rule run_messages)
  show "length (messages s) \<le> length (messages (run eng s evs))"
    using run_messages [of eng s evs] by auto
next
  assume "i < length (messages s)"
  then show "messages (run eng s evs) ! i = messages s ! i"
    using run_messages [of eng s evs] by (auto simp add: nth_append)
qed

text \<open>A conversation of two questions, one answered and one failed.\<close>

lemma ex_chat_run:
  "map role (messages (run example_engine (mount example_engine gps_example (js_str ''17''))
       [Typed (js_str ''hi''), Send, FlightDataChanged no_field_example,
        Settled (Resolved (Object [(''response'', String (js_str ''ok''))])),
        Typed (js_str ''yo''), Send, Settled (Rejected ConnectionRefused)])) =
     [''assistant'', ''user'', ''assistant'', ''user'', ''assistant'']"
  by (simp add: eval_defs no_field_example_def)

text \<open>
  The theorem at that conversation: the greeting stays first, and the roles
  alternate as the messages were appended.
\<close>

theorem C8_append_only_witness:
  "messages (run example_engine (mount example_engine gps_example (js_str ''17''))
       [Typed (js_str ''hi''), Send, FlightDataChanged no_field_example,
        Settled (Resolved (Object [(''response'', String (js_str ''ok''))])),
        Typed (js_str ''yo''), Send, Settled (Rejected ConnectionRefused)]) ! 0 =
     \<lparr>role = ''assistant'', content = String greeting_text\<rparr>
   \<and> map role (messages (run example_engine (mount example_engine gps_example (js_str ''17''))
       [Typed (js_str ''hi''), Send, FlightDataChanged no_field_example,
        Settled (Resolved (Object [(''response'', String (js_str ''ok''))])),
        Typed (js_str ''yo''), Send, Settled (Rejected ConnectionRefused)])) =
     [''assistant'', ''user'', ''assistant'', ''user'', ''assistant'']"
  using
    C8_append_only [where s = "mount example_engine gps_example (js_str ''17'')" and eng = example_engine
      and i = 0 and r = "Rejected Timeout" and fd = "[]"
      and evs = "[Typed (js_str ''hi''), Send, FlightDataChanged no_field_example,
        Settled (Resolved (Object [(''response'', String (js_str ''ok''))])),
        Typed (js_str ''yo''), Send, Settled (Rejected ConnectionRefused)]"]
    ex_chat_run
  by (simp add: mount_def mounted_def handler_messages data_def gps_example_def
      updateFlightInfo_error series_def)

subsection \<open>The input field\<close>

lemma run_while_busy:
  assumes "isLoading s" and "\<forall>e \<in> set evs. \<forall>r. e \<noteq> Settled r"
  shows "isLoading (run eng s evs) \<and> inflight (run eng s evs) = inflight s \<and>
         newMessage (run eng s evs) =
           last (newMessage s # [t. Typed t \<leftarrow> evs])"
  using assms(2)
proof (induction evs rule: rev_induct)
  case Nil
  with assms(1) show ?case by (simp add: run_Nil)
next
  case (snoc e evs)
  then have ih: "isLoading (run eng s evs)" "inflight (run eng s evs) = inflight s"
      "newMessage (run eng s evs) =
           last (newMessage s # [t. Typed t \<leftarrow> evs])"
    by auto
  show ?case
  proof (cases e)
    case (Typed t)
    with ih show ?thesis by (simp add: run_snoc)
  next
    case Send
    with ih show ?thesis by (simp add: run_snoc sendMessage_rejected)
  next
    case (Settled r)
    with snoc.prems show ?thesis by auto
  next
    case (FlightDataChanged fd)
    with ih show ?thesis by (simp add: run_snoc handler_frame)
  qed
qed

text \<open>
  Claim C10.  A call of \<open>sendMessage\<close> that passes its guard leaves the input
  field empty, with the typed text in the appended user message and in the
  request handed to the HTTP client.  The rest of the call never writes the
  field.  So when the request settles, whatever the outcome, the field holds
  the last text typed since the call, or the empty string if nothing was
  typed; the text sent survives as the user message at its place in the list.
\<close>

theorem C10_input_cleared:
  "(js_trim (newMessage s) \<noteq> [] \<and> \<not> isLoading s \<and> flightData s \<noteq> [] \<longrightarrow>
      newMessage (sendMessage s) = []
      \<and> messages (sendMessage s) =
          messages s @ [\<lparr>role = ''user'', content = String (newMessage s)\<rparr>]
      \<and> inflight (sendMessage s) = inflight s @
          [\<lparr>url = ''http://localhost:8001/chat'', body_message = newMessage s,
            body_sessionId = sessionId s\<rparr>])
   \<and> newMessage (sendMessage_settled r s) = newMessage s
   \<and> (js_trim (newMessage s) \<noteq> [] \<and> \<not> isLoading s \<and> flightData s \<noteq> [] \<and> inflight s = [] \<and>
       (\<forall>e \<in> set evs. \<forall>r'. e \<noteq> Settled r') \<longrightarrow>
      newMessage (run eng (sendMessage s) (evs @ [Settled r])) =
        last ([] # [t. Typed t \<leftarrow> evs])
      \<and> inflight (run eng (sendMessage s) (evs @ [Settled r])) = []
      \<and> messages (run eng (sendMessage s) (evs @ [Settled r])) ! length (messages s) =
          \<lparr>role = ''user'', content = String (newMessage s)\<rparr>)"
proof (intro conjI impI)
  assume a: "js_trim (newMessage s) \<noteq> [] \<and> \<not> isLoading s \<and> flightData s \<noteq> []"
  then show "newMessage (sendMessage s) = []"
    and "messages (sendMessage s) =
          messages s @ [\<lparr>role = ''user'', content = String (newMessage s)\<rparr>]"
    and "inflight (sendMessage s) = inflight s @
          [\<lparr>url = ''http://localhost:8001/chat'', body_message = newMessage s,
            body_sessionId = sessionId s\<rparr>]"
    by (simp_all add: sendMessage_accepted)
next
  show "newMessage (sendMessage_settled r s) = newMessage s"
    by (simp add: settled_frame)
next
  assume a: "js_trim (newMessage s) \<noteq> [] \<and> \<not> isLoading s \<and> flightData s \<noteq> [] \<and> inflight s = [] \<and>
       (\<forall>e \<in> set evs. \<forall>r'. e \<noteq> Settled r')"
  let ?q = "\<lparr>url = ''http://localhost:8001/chat'', body_message = newMessage s,
            body_sessionId = sessionId s\<rparr>"
  let ?t = "run eng (sendMessage s) evs"
  have b: "isLoading (sendMessage s)" "newMessage (sendMessage s) = []"
      "inflight (sendMessage s) = [?q]"
    using a by (simp_all add: sendMessage_accepted)
  have w: "isLoading ?t \<and> inflight ?t = inflight (sendMessage s) \<and>
         newMessage ?t =
           last (newMessage (sendMessage s) # [t. Typed t \<leftarrow> evs])"
    using a b(1) by (intro run_while_busy) auto
  have st: "run eng (sendMessage s) (evs @ [Settled r]) =
      sendMessage_settled r (?t\<lparr>inflight := []\<rparr>)"
    using w b by (simp add: run_snoc)
  show "newMessage (run eng (sendMessage s) (evs @ [Settled r])) =
        last ([] # [t. Typed t \<leftarrow> evs])"
    using w b by (simp add: st settled_frame)
  show "inflight (run eng (sendMessage s) (evs @ [Settled r])) = []"
    by (simp add: st settled_frame)
  have m: "messages (sendMessage s) =
          messages s @ [\<lparr>role = ''user'', content = String (newMessage s)\<rparr>]"
    using a by (simp add: sendMessage_accepted)
  obtain new where "messages (run eng (sendMessage s) (evs @ [Settled r])) =
      messages (sendMessage s) @ new"
    using run_messages [of eng "sendMessage s" "evs @ [Settled r]"] by auto
  with m show "messages (run eng (sendMessage s) (evs @ [Settled r])) ! length (messages s) =
          \<lparr>role = ''user'', content = String (newMessage s)\<rparr>"
    by (simp add: nth_append)
qed

text \<open>
  The theorem at the text \<open>hi\<close>, once with nothing typed before the request
  fails and once with \<open>yo\<close> typed (and a send attempt) in between.
\<close>

theorem C10_input_cleared_witness:
  "newMessage (sendMessage ((data gps_example)\<lparr>newMessage := js_str ''hi''\<rparr>)) = []
   \<and> map body_message (inflight (sendMessage ((data gps_example)\<lparr>newMessage := js_str ''hi''\<rparr>))) =
       [js_str ''hi'']
   \<and> newMessage (run example_engine (sendMessage ((data gps_example)\<lparr>newMessage := js_str ''hi''\<rparr>))
        ([] @ [Settled (Rejected Timeout)])) = []
   \<and> newMessage (run example_engine (sendMessage ((data gps_example)\<lparr>newMessage := js_str ''hi''\<rparr>))
        ([Typed (js_str ''y''), Typed (js_str ''yo''), Send] @ [Settled (Rejected Timeout)])) =
       js_str ''yo''
   \<and> messages (run example_engine (sendMessage ((data gps_example)\<lparr>newMessage := js_str ''hi''\<rparr>))
        ([Typed (js_str ''y''), Typed (js_str ''yo''), Send] @ [Settled (Rejected Timeout)])) ! 0 =
       \<lparr>role = ''user'', content = String (js_str ''hi'')\<rparr>"
  using
    C10_input_cleared [where s = "(data gps_example)\<lparr>newMessage := js_str ''hi''\<rparr>"
      and eng = example_engine and r = "Rejected Timeout" and evs = "[]"]
    C10_input_cleared [where s = "(data gps_example)\<lparr>newMessage := js_str ''hi''\<rparr>"
      and eng = example_engine and r = "Rejected Timeout"
      and evs = "[Typed (js_str ''y''), Typed (js_str ''yo''), Send]"]
  by (simp add: data_def gps_example_def js_trim_def js_whitespace_def js_str_def)

subsection \<open>The greeting\<close>

lemma series_changed:
  "map_of fd k = Some xs \<Longrightarrow> series (s\<lparr>flightData := fd\<rparr>) k = xs"
  "map_of fd k = None \<Longrightarrow> series (s\<lparr>flightData := fd\<rparr>) k = []"
  by (simp_all add: series_def)

lemma changed_messages:
  "messages (step eng s (FlightDataChanged fd)) =
     (if fd \<noteq> [] \<and> messages s = [] \<and>
         \<not> arg_limit eng < length (defined_values ''alt'' (series (s\<lparr>flightData := fd\<rparr>) ''ATT'')) \<and>
         \<not> arg_limit eng < length (defined_values ''volt'' (series (s\<lparr>flightData := fd\<rparr>) ''BAT''))
      then [\<lparr>role = ''assistant'', content = String greeting_text\<rparr>]
      else messages s)"
  by (simp add: handler_messages updateFlightInfo_error)

lemma changed_uncaught:
  "uncaught (step eng s (FlightDataChanged fd)) =
     (if arg_limit eng < length (defined_values ''alt'' (series (s\<lparr>flightData := fd\<rparr>) ''ATT'')) \<or>
         arg_limit eng < length (defined_values ''volt'' (series (s\<lparr>flightData := fd\<rparr>) ''BAT''))
      then uncaught s @ [RangeError]
      else uncaught s)"
  by (cases "fd = []") (auto simp add: handler_uncaught updateFlightInfo_error series_def)

text \<open>
  Claim C7.  The watcher calls \<open>updateFlightInfo\<close> before it appends the
  greeting.  When the new mapping has an ATT series in which more records
  define \<open>alt\<close> than the engine accepts as arguments (or a BAT series with that
  many records defining \<open>volt\<close>), the spread call throws, the watcher ends
  there, and no greeting is appended, although the mapping is not empty and
  the message list is empty.  When no series is that long, a change to a
  non-empty mapping appends exactly the fixed greeting to an empty list.  A
  change while the list is not empty, or to the empty mapping, appends nothing.
\<close>

theorem C7_greeting_on_change:
  "(messages s = [] \<and> map_of fd ''ATT'' = Some a \<and>
      arg_limit eng < length (filter (\<lambda>m. map_of m ''alt'' \<noteq> None) a) \<longrightarrow>
      messages (step eng s (FlightDataChanged fd)) = [] \<and>
      uncaught (step eng s (FlightDataChanged fd)) = uncaught s @ [RangeError])
   \<and> (messages s = [] \<and> map_of fd ''BAT'' = Some b \<and>
      arg_limit eng < length (filter (\<lambda>m. map_of m ''volt'' \<noteq> None) b) \<longrightarrow>
      messages (step eng s (FlightDataChanged fd)) = [] \<and>
      uncaught (step eng s (FlightDataChanged fd)) = uncaught s @ [RangeError])
   \<and> (messages s = [] \<and> fd \<noteq> [] \<and>
      (\<forall>a. map_of fd ''ATT'' = Some a \<longrightarrow>
         length (filter (\<lambda>m. map_of m ''alt'' \<noteq> None) a) \<le> arg_limit eng) \<and>
      (\<forall>b. map_of fd ''BAT'' = Some b \<longrightarrow>
         length (filter (\<lambda>m. map_of m ''volt'' \<noteq> None) b) \<le> arg_limit eng) \<longrightarrow>
      messages (step eng s (FlightDataChanged fd)) =
        [\<lparr>role = ''assistant'', content = String greeting_text\<rparr>])
   \<and> (messages s \<noteq> [] \<longrightarrow> messages (step eng s (FlightDataChanged fd)) = messages s)
   \<and> (fd = [] \<longrightarrow> messages (step eng s (FlightDataChanged fd)) = messages s)"
proof (intro conjI impI)
  assume a: "messages s = [] \<and> map_of fd ''ATT'' = Some a \<and>
      arg_limit eng < length (filter (\<lambda>m. map_of m ''alt'' \<noteq> None) a)"
  then have "arg_limit eng < length (defined_values ''alt'' (series (s\<lparr>flightData := fd\<rparr>) ''ATT''))"
    by (simp only: series_changed length_defined_values)
  with a show "messages (step eng s (FlightDataChanged fd)) = []"
    and "uncaught (step eng s (FlightDataChanged fd)) = uncaught s @ [RangeError]"
    by (simp_all add: changed_messages changed_uncaught del: step.simps)
next
  assume a: "messages s = [] \<and> map_of fd ''BAT'' = Some b \<and>
      arg_limit eng < length (filter (\<lambda>m. map_of m ''volt'' \<noteq> None) b)"
  then have "arg_limit eng < length (defined_values ''volt'' (series (s\<lparr>flightData := fd\<rparr>) ''BAT''))"
    by (simp only: series_changed length_defined_values)
  with a show "messages (step eng s (FlightDataChanged fd)) = []"
    and "uncaught (step eng s (FlightDataChanged fd)) = uncaught s @ [RangeError]"
    by (simp_all add: changed_messages changed_uncaught del: step.simps)
next
  assume a: "messages s = [] \<and> fd \<noteq> [] \<and>
      (\<forall>a. map_of fd ''ATT'' = Some a \<longrightarrow>
         length (filter (\<lambda>m. map_of m ''alt'' \<noteq> None) a) \<le> arg_limit eng) \<and>
      (\<forall>b. map_of fd ''BAT'' = Some b \<longrightarrow>
         length (filter (\<lambda>m. map_of m ''volt'' \<noteq> None) b) \<le> arg_limit eng)"
  have "\<not> arg_limit eng < length (defined_values ''alt'' (series (s\<lparr>flightData := fd\<rparr>) ''ATT''))"
  proof (cases "map_of fd ''ATT''")
    case None
    then show ?thesis by (simp add: series_changed)
  next
    case (Some xs)
    with a have "length (filter (\<lambda>m. map_of m ''alt'' \<noteq> None) xs) \<le> arg_limit eng"
      by blast
    with Some show ?thesis
      by (simp only: series_changed length_defined_values not_less)
  qed
  moreover
  have "\<not> arg_limit eng < length (defined_values ''volt'' (series (s\<lparr>flightData := fd\<rparr>) ''BAT''))"
  proof (cases "map_of fd ''BAT''")
    case None
    then show ?thesis by (simp add: series_changed)
  next
    case (Some xs)
    with a have "length (filter (\<lambda>m. map_of m ''volt'' \<noteq> None) xs) \<le> arg_limit eng"
      by blast
    with Some show ?thesis
      by (simp only: series_changed length_defined_values not_less)
  qed
  ultimately show "messages (step eng s (FlightDataChanged fd)) =
        [\<lparr>role = ''assistant'', content = String greeting_text\<rparr>]"
    using a by (simp add: changed_messages del: step.simps)
next
  assume "messages s \<noteq> []"
  then show "messages (step eng s (FlightDataChanged fd)) = messages s"
    by (simp add: changed_messages del: step.simps)
next
  assume "fd = []"
  then show "messages (step eng s (FlightDataChanged fd)) = messages s"
    by (simp add: changed_messages del: step.simps)
qed

lemma arg_limit_example: "arg_limit example_engine = 125503"
  by (simp add: arg_limit_def example_engine_def)

text \<open>
  The theorem at an ATT series and at a BAT series of 150000 records, on an
  engine that accepts 125503 arguments; at a first load of a short series; at
  a load when the list already holds a message; and at a change to the empty
  mapping.
\<close>

theorem C7_greeting_on_change_witness:
  "messages (step example_engine (data []) (FlightDataChanged long_att_example)) = []
   \<and> uncaught (step example_engine (data []) (FlightDataChanged long_att_example)) = [RangeError]
   \<and> messages (step example_engine (data [])
        (FlightDataChanged [(''BAT'', replicate 150000 [(''volt'', Fin 12)])])) = []
   \<and> messages (step example_engine (data []) (FlightDataChanged gps_example)) =
        [\<lparr>role = ''assistant'', content = String greeting_text\<rparr>]
   \<and> messages (step example_engine
        ((data [])\<lparr>messages := [\<lparr>role = ''user'', content = String (js_str ''hi'')\<rparr>]\<rparr>)
        (FlightDataChanged gps_example)) =
        [\<lparr>role = ''user'', content = String (js_str ''hi'')\<rparr>]
   \<and> messages (step example_engine (data gps_example) (FlightDataChanged [])) = []"
  using
    C7_greeting_on_change [where s = "data []" and fd = long_att_example
      and a = "replicate 150000 [(''alt'', Fin 1)]" and b = "[]" and eng = example_engine]
    C7_greeting_on_change [where s = "data []"
      and fd = "[(''BAT'', replicate 150000 [(''volt'', Fin 12)])]"
      and a = "[]" and b = "replicate 150000 [(''volt'', Fin 12)]" and eng = example_engine]
    C7_greeting_on_change [where s = "data []" and fd = gps_example
      and a = "[]" and b = "[]" and eng = example_engine]
    C7_greeting_on_change [where fd = gps_example and a = "[]" and b = "[]"
      and eng = example_engine
      and s = "(data [])\<lparr>messages := [\<lparr>role = ''user'', content = String (js_str ''hi'')\<rparr>]\<rparr>"]
    C7_greeting_on_change [where s = "data gps_example" and fd = "[]"
      and a = "[]" and b = "[]" and eng = example_engine]
  by (simp add: data_def long_att_example_def gps_example_def arg_limit_example
      filter_replicate del: step.simps)

subsection \<open>The summary fields when \<open>flightData\<close> changes\<close>








end
